theory Spec2Isabelle
  imports Main
begin

section \<open>Python values used by the validator\<close>

subsection \<open>Strings\<close>

text \<open>
  A Python \<open>str\<close> is a sequence of Unicode code points, and \<open>len\<close> counts code points.
  A string is therefore a list of code points; \<open>py\<close> turns an ASCII literal of the
  source into that representation.
\<close>

type_synonym pystr = "nat list"

definition py :: "string \<Rightarrow> pystr" where
  "py s = map of_char s"

text \<open>
  \<open>str.isspace\<close> for one code point, as CPython's \<open>_PyUnicode_IsWhitespace\<close> lists them;
  \<open>str.strip()\<close> without an argument removes exactly these from both ends.
\<close>

definition py_isspace :: "nat \<Rightarrow> bool" where
  "py_isspace c =
     ((9 \<le> c \<and> c \<le> 13) \<or> (28 \<le> c \<and> c \<le> 32) \<or> c = 133 \<or> c = 160 \<or> c = 5760
      \<or> (8192 \<le> c \<and> c \<le> 8202) \<or> c = 8232 \<or> c = 8233 \<or> c = 8239 \<or> c = 8287
      \<or> c = 12288)"

definition lstrip :: "pystr \<Rightarrow> pystr" where
  "lstrip s = dropWhile py_isspace s"

definition rstrip :: "pystr \<Rightarrow> pystr" where
  "rstrip s = rev (dropWhile py_isspace (rev s))"

definition strip :: "pystr \<Rightarrow> pystr" where
  "strip s = rstrip (lstrip s)"

subsection \<open>Calendar dates\<close>

text \<open>
  \<open>datetime.date\<close> holds a year, a month and a day; its comparison operators compare
  the triples \<open>(year, month, day)\<close> lexicographically.
\<close>

record date =
  year :: nat
  month :: nat
  day :: nat

definition date_gt :: "date \<Rightarrow> date \<Rightarrow> bool" where
  "date_gt a b =
     (year b < year a
      \<or> (year a = year b
          \<and> (month b < month a \<or> (month a = month b \<and> day b < day a))))"

subsection \<open>Decoded JSON\<close>

text \<open>
  What \<open>json.load\<close> can return. A float is kept as mantissa and binary exponent; no
  operation of the validator looks inside one.
\<close>

datatype json =
    JNull
  | JBool bool
  | JInt int
  | JFloat int int
  | JStr pystr
  | JList "json list"
  | JDict "(pystr \<times> json) list"

subsection \<open>Exceptions\<close>

text \<open>
  The exception classes that occur, each with the text that \<open>str(e)\<close> gives.
  \<open>json.JSONDecodeError\<close> and \<open>UnicodeDecodeError\<close> are subclasses of \<open>ValueError\<close>;
  \<open>FileNotFoundError\<close> is a subclass of \<open>OSError\<close>; \<open>OSError\<close> here stands for every other
  operating-system error of \<open>open\<close> (a directory, missing permission).
\<close>

datatype exn =
    ValueError pystr
  | JSONDecodeError pystr
  | UnicodeDecodeError pystr
  | FileNotFoundError pystr
  | OSError pystr
  | Exception pystr



section \<open>models.py\<close>

record DocumentRequest =
  document_text :: pystr

record ExtractedData =
  policy_number :: "pystr option"
  vessel_name :: "pystr option"
  policy_start_date :: "date option"
  policy_end_date :: "date option"
  insured_value :: "int option"

record ValidationResult =
  rule :: pystr
  status :: pystr
  message :: pystr

record ValidationResponse =
  extracted_data :: ExtractedData
  validation_results :: "ValidationResult list"



section \<open>validation.py\<close>

text \<open>
  \<open>valid_vessels_path\<close> is a \<open>pathlib.Path\<close>, kept here by the text that \<open>str\<close> gives for
  it, which is what the loader prints.
\<close>

record DocumentValidator =
  valid_vessels_path :: pystr
  valid_vessels :: "json list"

text \<open>
  The outcome of \<open>open(path, encoding='utf-8')\<close> followed by \<open>json.load\<close>:
  \<^item> the file does not exist;
  \<^item> \<open>open\<close> fails otherwise, with the text of the error;
  \<^item> the bytes are not UTF-8, with the text of the \<open>UnicodeDecodeError\<close>;
  \<^item> the content is not JSON: the decoder's message and the position suffix
    \<open>: line l column c (char p)\<close> that \<open>JSONDecodeError\<close> appends to a message;
  \<^item> a decoded value.
\<close>

datatype vessels_file =
    NoSuchFile
  | OpenFails pystr
  | Undecodable pystr
  | NotJSON pystr pystr
  | Decoded json

text \<open>
  \<open>_load_valid_vessels\<close>, with the text of \<open>self.valid_vessels_path\<close> as first argument.
  Only \<open>FileNotFoundError\<close> and \<open>JSONDecodeError\<close> are caught and raised anew; the new
  \<open>JSONDecodeError\<close> is built from the text of the old one, the same document and the
  same position, so the position suffix is appended once more. Every other exception
  leaves the function as it is.
\<close>

fun load_valid_vessels :: "pystr \<Rightarrow> vessels_file \<Rightarrow> exn + json list" where
  "load_valid_vessels path (Decoded (JList vessels)) = Inr vessels"
| "load_valid_vessels path (Decoded v) =
     Inl (ValueError (py ''Valid vessels file must contain a JSON array''))"
| "load_valid_vessels path NoSuchFile =
     Inl (FileNotFoundError (py ''Valid vessels file not found at: '' @ path))"
| "load_valid_vessels path (NotJSON m loc) =
     Inl (JSONDecodeError (py ''Invalid JSON in vessels file: '' @ (m @ loc) @ loc))"
| "load_valid_vessels path (Undecodable m) = Inl (UnicodeDecodeError m)"
| "load_valid_vessels path (OpenFails m) = Inl (OSError m)"

text \<open>
  \<open>DocumentValidator.__init__\<close>. \<open>Path(valid_vessels_path)\<close> normalises the string it is
  given in a way that depends on the platform; \<open>path_str\<close> is the parameter that maps
  the string given to the text of the resulting \<open>Path\<close>.
\<close>

definition DocumentValidator_init ::
  "(pystr \<Rightarrow> pystr) \<Rightarrow> pystr \<Rightarrow> vessels_file \<Rightarrow> exn + DocumentValidator" where
  "DocumentValidator_init path_str given file =
     (case load_valid_vessels (path_str given) file of
        Inl e \<Rightarrow> Inl e
      | Inr vessels \<Rightarrow> Inr \<lparr>valid_vessels_path = path_str given, valid_vessels = vessels\<rparr>)"

definition validate_date_consistency :: "date option \<Rightarrow> date option \<Rightarrow> ValidationResult" where
  "validate_date_consistency start_date end_date =
     (case (start_date, end_date) of
        (Some s, Some e) \<Rightarrow>
          if date_gt e s
          then \<lparr>rule = py ''Date Consistency'', status = py ''PASS'',
                message = py ''Policy end date is after start date.''\<rparr>
          else \<lparr>rule = py ''Date Consistency'', status = py ''FAIL'',
                message = py ''Policy end date cannot be before the start date.''\<rparr>
      | _ \<Rightarrow> \<lparr>rule = py ''Date Consistency'', status = py ''FAIL'',
               message = py ''Both start and end dates must be present for validation.''\<rparr>)"

definition validate_insured_value :: "int option \<Rightarrow> ValidationResult" where
  "validate_insured_value v =
     (case v of
        None \<Rightarrow> \<lparr>rule = py ''Value Check'', status = py ''FAIL'',
                  message = py ''Insured value is missing.''\<rparr>
      | Some n \<Rightarrow>
          if n > 0
          then \<lparr>rule = py ''Value Check'', status = py ''PASS'',
                message = py ''Insured value is valid.''\<rparr>
          else \<lparr>rule = py ''Value Check'', status = py ''FAIL'',
                message = py ''Insured value must be a positive number.''\<rparr>)"

text \<open>
  \<open>vessel_name in self.valid_vessels\<close> compares the string with each element of the
  list by \<open>==\<close>; a string equals only a string with the same code points.
\<close>

definition validate_vessel_name :: "DocumentValidator \<Rightarrow> pystr option \<Rightarrow> ValidationResult" where
  "validate_vessel_name self name =
     (case name of
        None \<Rightarrow> \<lparr>rule = py ''Vessel Name Match'', status = py ''FAIL'',
                  message = py ''Vessel name is missing.''\<rparr>
      | Some n \<Rightarrow>
          if strip n = []
          then \<lparr>rule = py ''Vessel Name Match'', status = py ''FAIL'',
                message = py ''Vessel name is missing.''\<rparr>
          else if JStr n \<in> set (valid_vessels self)
          then \<lparr>rule = py ''Vessel Name Match'', status = py ''PASS'',
                message = py ''Vessel '' @ [39] @ n @ [39] @ py '' is on the approved list.''\<rparr>
          else \<lparr>rule = py ''Vessel Name Match'', status = py ''FAIL'',
                message = py ''Vessel '' @ [39] @ n @ [39] @ py '' is not on the approved list.''\<rparr>)"

definition validate_policy_number :: "pystr option \<Rightarrow> ValidationResult" where
  "validate_policy_number number =
     (case number of
        None \<Rightarrow> \<lparr>rule = py ''Completeness Check'', status = py ''FAIL'',
                  message = py ''Policy number is missing.''\<rparr>
      | Some n \<Rightarrow>
          if strip n = []
          then \<lparr>rule = py ''Completeness Check'', status = py ''FAIL'',
                message = py ''Policy number is missing.''\<rparr>
          else \<lparr>rule = py ''Completeness Check'', status = py ''PASS'',
                message = py ''Policy number is present.''\<rparr>)"

definition validate_all :: "DocumentValidator \<Rightarrow> ExtractedData \<Rightarrow> ValidationResult list" where
  "validate_all self d =
     [] @ [validate_date_consistency (policy_start_date d) (policy_end_date d)]
        @ [validate_insured_value (insured_value d)]
        @ [validate_vessel_name self (vessel_name d)]
        @ [validate_policy_number (policy_number d)]"

section \<open>ai_extractor.py\<close>

text \<open>
  The record the extraction returns: the two dates are still strings here. The field
  names carry the prefix \<open>ai_\<close> to keep them apart from those of \<open>ExtractedData\<close>.
\<close>

record AIExtractedData =
  ai_policy_number :: "pystr option"
  ai_vessel_name :: "pystr option"
  ai_policy_start_date :: "pystr option"
  ai_policy_end_date :: "pystr option"
  ai_insured_value :: "int option"

record AIExtractor =
  api_key :: pystr



fun exn_str :: "exn \<Rightarrow> pystr" where
  "exn_str (ValueError m) = m"
| "exn_str (JSONDecodeError m) = m"
| "exn_str (UnicodeDecodeError m) = m"
| "exn_str (FileNotFoundError m) = m"
| "exn_str (OSError m) = m"
| "exn_str (Exception m) = m"

text \<open>
  \<open>extract_data_sync\<close>: the body of its \<open>try\<close> block (the prompt built from the document
  text, the call of the language model, \<open>response.parsed\<close>) is the parameter \<open>gemini\<close>, a
  function of the document text that raises or returns the parsed record, which is
  \<open>None\<close> when the response does not fit the schema. Every exception is wrapped.
\<close>

definition extract_data_sync ::
  "(pystr \<Rightarrow> exn + AIExtractedData option) \<Rightarrow> pystr \<Rightarrow> exn + AIExtractedData option" where
  "extract_data_sync gemini text =
     (case gemini text of
        Inl e \<Rightarrow> Inl (Exception (py ''AI extraction failed: '' @ exn_str e))
      | Inr r \<Rightarrow> Inr r)"

section \<open>main.py\<close>

record services =
  ai_extractor :: "AIExtractor option"
  document_validator :: "DocumentValidator option"


record HTTPException =
  status_code :: nat
  detail :: pystr

text \<open>
  The conversion of one extracted date: \<open>date.fromisoformat\<close> is the parameter \<open>fromiso\<close>,
  which is \<open>None\<close> where the library raises \<open>ValueError\<close>. A field that is \<open>None\<close> or the
  empty string is falsy and is not parsed.
\<close>

definition parse_date :: "(pystr \<Rightarrow> date option) \<Rightarrow> pystr option \<Rightarrow> date option" where
  "parse_date fromiso field =
     (case field of
        None \<Rightarrow> None
      | Some t \<Rightarrow> if t = [] then None else fromiso t)"

text \<open>
  The handler of \<open>POST /validate\<close>. The first component of the result lists the texts
  handed to \<open>extract_data_sync\<close>, the second is the exception raised or the response.
  Reading a field of \<open>None\<close> raises \<open>AttributeError\<close> inside the first \<open>try\<close>.
\<close>

definition validate_document ::
  "services \<Rightarrow> (pystr \<Rightarrow> exn + AIExtractedData option) \<Rightarrow> (pystr \<Rightarrow> date option)
     \<Rightarrow> DocumentRequest \<Rightarrow> pystr list \<times> (HTTPException + ValidationResponse)" where
  "validate_document sv gemini fromiso request =
     (case ai_extractor sv of
        None \<Rightarrow>
          ([], Inl \<lparr>status_code = 503,
                    detail = py ''AI service not available. Please configure GEMINI_API_KEY.''\<rparr>)
      | Some x \<Rightarrow>
          (case document_validator sv of
             None \<Rightarrow>
               ([], Inl \<lparr>status_code = 503,
                         detail = py ''Validation service not available. Check valid_vessels.json file.''\<rparr>)
           | Some v \<Rightarrow>
               (case extract_data_sync gemini (document_text request) of
                  Inl e \<Rightarrow>
                    ([document_text request],
                     Inl \<lparr>status_code = 500,
                          detail = py ''AI extraction failed: '' @ exn_str e\<rparr>)
                | Inr None \<Rightarrow>
                    ([document_text request],
                     Inl \<lparr>status_code = 500,
                          detail = py ''AI extraction failed: '' @ [39] @ py ''NoneType'' @ [39]
                            @ py '' object has no attribute '' @ [39] @ py ''policy_start_date''
                            @ [39]\<rparr>)
                | Inr (Some ai) \<Rightarrow>
                    (let start_date = parse_date fromiso (ai_policy_start_date ai);
                         end_date = parse_date fromiso (ai_policy_end_date ai);
                         extracted = \<lparr>policy_number = ai_policy_number ai,
                                      vessel_name = ai_vessel_name ai,
                                      policy_start_date = start_date,
                                      policy_end_date = end_date,
                                      insured_value = ai_insured_value ai\<rparr>
                     in ([document_text request],
                         Inr \<lparr>extracted_data = extracted,
                              validation_results = validate_all v extracted\<rparr>)))))"


subsection \<open>A date parser for concrete runs\<close>

text \<open>
  One instance of the parameter \<open>fromiso\<close>: the format \<open>YYYY-MM-DD\<close> alone, ten characters
  of ASCII digits and hyphens, with the range checks of the \<open>date\<close> constructor.
\<close>

definition digit_val :: "nat \<Rightarrow> nat option" where
  "digit_val c = (if 48 \<le> c \<and> c \<le> 57 then Some (c - 48) else None)"

fun digits_val :: "nat \<Rightarrow> pystr \<Rightarrow> nat option" where
  "digits_val acc [] = Some acc"
| "digits_val acc (c # cs) =
     (case digit_val c of None \<Rightarrow> None | Some d \<Rightarrow> digits_val (10 * acc + d) cs)"

definition is_leap :: "nat \<Rightarrow> bool" where
  "is_leap y = (y mod 4 = 0 \<and> (y mod 100 \<noteq> 0 \<or> y mod 400 = 0))"

definition days_in_month :: "nat \<Rightarrow> nat \<Rightarrow> nat" where
  "days_in_month y m =
     (if m = 2 then (if is_leap y then 29 else 28)
      else if m = 4 \<or> m = 6 \<or> m = 9 \<or> m = 11 then 30 else 31)"

definition iso_ymd :: "pystr \<Rightarrow> date option" where
  "iso_ymd s =
     (if length s \<noteq> 10 \<or> s ! 4 \<noteq> 45 \<or> s ! 7 \<noteq> 45 then None
      else case (digits_val 0 (take 4 s), digits_val 0 (take 2 (drop 5 s)),
                 digits_val 0 (drop 8 s)) of
             (Some y, Some m, Some d) \<Rightarrow>
               if 1 \<le> y \<and> 1 \<le> m \<and> m \<le> 12 \<and> 1 \<le> d \<and> d \<le> days_in_month y m
               then Some \<lparr>year = y, month = m, day = d\<rparr>
               else None
           | _ \<Rightarrow> None)"

section \<open>Classifying the vessel file\<close>



section \<open>Concrete data\<close>

text \<open>
  A validator holding the five vessel names that the repository's tests expect on the
  approved list.
\<close>

definition approved_fleet :: DocumentValidator where
  "approved_fleet =
     \<lparr>valid_vessels_path = py ''provided_assets/valid_vessels.json'',
      valid_vessels = [JStr (py ''MV Neptune''), JStr (py ''Oceanic Voyager''),
                       JStr (py ''Starlight Carrier''), JStr (py ''The Sea Serpent''),
                       JStr (py ''Ironclad Freighter'')]\<rparr>"

text \<open>Both services initialised, and an extraction whose start date is no calendar date.\<close>

definition ready :: services where
  "ready = \<lparr>ai_extractor = Some \<lparr>api_key = py ''key''\<rparr>,
            document_validator = Some approved_fleet\<rparr>"

definition bad_start :: AIExtractedData where
  "bad_start = \<lparr>ai_policy_number = Some (py ''HM-2025-10-A4B''),
                ai_vessel_name = Some (py ''MV Neptune''),
                ai_policy_start_date = Some (py ''2025-13-01''),
                ai_policy_end_date = Some (py ''2025-12-31''),
                ai_insured_value = Some 5000000\<rparr>"

section \<open>Facts about strings and dates\<close>

lemma py_eq_iff: "py a = py b \<longleftrightarrow> a = b"
  unfolding py_def by (simp add: inj_map_eq_map inj_on_def)

lemma PASS_neq_FAIL: "py ''PASS'' \<noteq> py ''FAIL''"
  by (simp add: py_eq_iff)

lemma strip_Nil_iff: "strip s = [] \<longleftrightarrow> (\<forall>c\<in>set s. py_isspace c)"
proof
  assume "strip s = []"
  then have "dropWhile py_isspace (rev (dropWhile py_isspace s)) = []"
    by (simp add: strip_def rstrip_def lstrip_def)
  then have all: "\<forall>c\<in>set (dropWhile py_isspace s). py_isspace c"
    by simp
  have "dropWhile py_isspace s = []"
  proof (cases "dropWhile py_isspace s")
    case Nil
    then show ?thesis .
  next
    case (Cons c cs)
    then have "\<not> py_isspace c" using hd_dropWhile [of py_isspace s] by simp
    moreover have "py_isspace c" using all Cons by simp
    ultimately show ?thesis by simp
  qed
  then show "\<forall>c\<in>set s. py_isspace c" by simp
next
  assume "\<forall>c\<in>set s. py_isspace c"
  then have "lstrip s = []" by (simp add: lstrip_def)
  then show "strip s = []" by (simp add: strip_def rstrip_def)
qed

lemma date_gt_irrefl: "\<not> date_gt d d"
  by (simp add: date_gt_def)

lemma date_gt_asym: "date_gt a b \<Longrightarrow> \<not> date_gt b a"
  by (auto simp: date_gt_def)

lemma date_gt_trans: "date_gt a b \<Longrightarrow> date_gt b c \<Longrightarrow> date_gt a c"
  by (auto simp: date_gt_def)

lemma date_trichotomy: "date_gt a b \<or> a = b \<or> date_gt b (a::date)"
  by (cases a; cases b) (auto simp: date_gt_def)

section \<open>The four rules\<close>

lemma rule_date: "rule (validate_date_consistency s e) = py ''Date Consistency''"
  by (simp add: validate_date_consistency_def split: option.split)

lemma rule_value: "rule (validate_insured_value v) = py ''Value Check''"
  by (simp add: validate_insured_value_def split: option.split)

lemma rule_vessel: "rule (validate_vessel_name self n) = py ''Vessel Name Match''"
  by (simp add: validate_vessel_name_def split: option.split)

lemma rule_policy: "rule (validate_policy_number n) = py ''Completeness Check''"
  by (simp add: validate_policy_number_def split: option.split)

text \<open>
  Claim C1. For every record, \<open>validate_all\<close> returns exactly four results, named
  Date Consistency, Value Check, Vessel Name Match and Completeness Check in this order,
  and each result is the rule's own function applied to that rule's fields of the record
  alone.
\<close>

theorem validate_all_four_rules:
  "validate_all self d =
     [validate_date_consistency (policy_start_date d) (policy_end_date d),
      validate_insured_value (insured_value d),
      validate_vessel_name self (vessel_name d),
      validate_policy_number (policy_number d)]
   \<and> length (validate_all self d) = 4
   \<and> map rule (validate_all self d) =
       [py ''Date Consistency'', py ''Value Check'', py ''Vessel Name Match'',
        py ''Completeness Check'']"
  by (simp add: validate_all_def rule_date rule_value rule_vessel rule_policy)

text \<open>
  Claim C2. When the end date is strictly later than the start date the status is PASS;
  when the end date is earlier than the start date, when both dates are equal, and when
  either date is absent, the status is FAIL.
\<close>

theorem date_consistency_status:
  "date_gt later earlier \<Longrightarrow>
     status (validate_date_consistency (Some earlier) (Some later)) = py ''PASS''
     \<and> status (validate_date_consistency (Some later) (Some earlier)) = py ''FAIL''
     \<and> status (validate_date_consistency (Some d) (Some d)) = py ''FAIL''
     \<and> status (validate_date_consistency None x) = py ''FAIL''
     \<and> status (validate_date_consistency x None) = py ''FAIL''"
  by (auto simp: validate_date_consistency_def date_gt_irrefl dest: date_gt_asym
           split: option.split)

theorem date_consistency_status_witness:
  "date_gt \<lparr>year = 2025, month = 12, day = 31\<rparr> \<lparr>year = 2025, month = 1, day = 1\<rparr>
   \<and> status (validate_date_consistency (Some \<lparr>year = 2025, month = 1, day = 1\<rparr>)
        (Some \<lparr>year = 2025, month = 12, day = 31\<rparr>)) = py ''PASS''
   \<and> status (validate_date_consistency (Some \<lparr>year = 2025, month = 12, day = 31\<rparr>)
        (Some \<lparr>year = 2025, month = 1, day = 1\<rparr>)) = py ''FAIL''
   \<and> status (validate_date_consistency (Some \<lparr>year = 2025, month = 1, day = 1\<rparr>)
        (Some \<lparr>year = 2025, month = 1, day = 1\<rparr>)) = py ''FAIL''
   \<and> status (validate_date_consistency None (Some \<lparr>year = 2025, month = 1, day = 1\<rparr>)) = py ''FAIL''"
proof -
  have h: "date_gt \<lparr>year = 2025, month = 12, day = 31\<rparr> \<lparr>year = 2025, month = 1, day = 1\<rparr>"
    by (simp add: date_gt_def)
  show ?thesis
    using h date_consistency_status [OF h, of "\<lparr>year = 2025, month = 1, day = 1\<rparr>"
        "Some \<lparr>year = 2025, month = 1, day = 1\<rparr>"]
    by simp
qed

text \<open>
  Claim C3. An insured value greater than 0 gives the status PASS; the value 0, a
  negative value and an absent value give the status FAIL.
\<close>

theorem insured_value_status:
  "0 < v \<Longrightarrow> w < 0 \<Longrightarrow>
     status (validate_insured_value (Some v)) = py ''PASS''
     \<and> status (validate_insured_value (Some 0)) = py ''FAIL''
     \<and> status (validate_insured_value (Some w)) = py ''FAIL''
     \<and> status (validate_insured_value None) = py ''FAIL''"
  by (simp add: validate_insured_value_def)

theorem insured_value_status_witness:
  "(0::int) < 5000000 \<and> (-500::int) < 0
   \<and> status (validate_insured_value (Some 5000000)) = py ''PASS''
   \<and> status (validate_insured_value (Some 0)) = py ''FAIL''
   \<and> status (validate_insured_value (Some (-500))) = py ''FAIL''
   \<and> status (validate_insured_value None) = py ''FAIL''"
  using insured_value_status [of 5000000 "-500"] by simp

text \<open>
  Claim C4. An absent vessel name and a name that trims to the empty string give the
  status FAIL. For any other name the status is PASS exactly when the name as given,
  untrimmed, is an element of the approved list, and FAIL otherwise; so a name with
  surrounding whitespace fails unless that very string is on the list.
\<close>

theorem vessel_name_status:
  "strip blank = [] \<Longrightarrow> strip n \<noteq> [] \<Longrightarrow>
     status (validate_vessel_name self None) = py ''FAIL''
     \<and> status (validate_vessel_name self (Some blank)) = py ''FAIL''
     \<and> (status (validate_vessel_name self (Some n)) = py ''PASS''
          \<longleftrightarrow> JStr n \<in> set (valid_vessels self))
     \<and> (status (validate_vessel_name self (Some n)) = py ''FAIL''
          \<longleftrightarrow> JStr n \<notin> set (valid_vessels self))"
proof -
  assume sb: "strip blank = []" and n: "strip n \<noteq> []"
  show ?thesis
    using n by (simp add: validate_vessel_name_def sb PASS_neq_FAIL PASS_neq_FAIL [symmetric])
qed

theorem vessel_name_status_witness:
  "strip (py ''   '') = [] \<and> strip (py '' MV Neptune'') \<noteq> []
   \<and> status (validate_vessel_name approved_fleet None) = py ''FAIL''
   \<and> status (validate_vessel_name approved_fleet (Some (py ''   ''))) = py ''FAIL''
   \<and> JStr (py ''MV Neptune'') \<in> set (valid_vessels approved_fleet)
   \<and> JStr (py '' MV Neptune'') \<notin> set (valid_vessels approved_fleet)
   \<and> status (validate_vessel_name approved_fleet (Some (py '' MV Neptune''))) = py ''FAIL''"
proof -
  have b: "strip (py ''   '') = []"
    by (simp add: py_def strip_def lstrip_def rstrip_def py_isspace_def)
  have n: "strip (py '' MV Neptune'') \<noteq> []"
    by (simp add: py_def strip_def lstrip_def rstrip_def py_isspace_def)
  have m: "JStr (py ''MV Neptune'') \<in> set (valid_vessels approved_fleet)"
    by (simp add: approved_fleet_def)
  have o: "JStr (py '' MV Neptune'') \<notin> set (valid_vessels approved_fleet)"
    by (simp add: approved_fleet_def py_eq_iff)
  show ?thesis
    using b n m o vessel_name_status [OF b n, of approved_fleet] by simp
qed

text \<open>
  Claim C5. A policy number that is non-empty after trimming gives the status PASS; an
  absent, an empty and a whitespace-only policy number give the status FAIL.
\<close>

theorem policy_number_status:
  "strip n \<noteq> [] \<Longrightarrow> \<forall>c\<in>set blank. py_isspace c \<Longrightarrow>
     status (validate_policy_number (Some n)) = py ''PASS''
     \<and> status (validate_policy_number (Some blank)) = py ''FAIL''
     \<and> status (validate_policy_number (Some [])) = py ''FAIL''
     \<and> status (validate_policy_number None) = py ''FAIL''"
proof -
  assume n: "strip n \<noteq> []" and b: "\<forall>c\<in>set blank. py_isspace c"
  from b have sb: "strip blank = []" by (simp add: strip_Nil_iff)
  have se: "strip [] = []" by (simp add: strip_Nil_iff)
  show ?thesis
    using n by (simp add: validate_policy_number_def sb se)
qed

theorem policy_number_status_witness:
  "strip (py ''HM-2025-10-A4B'') \<noteq> [] \<and> strip (py ''   '') = []
   \<and> status (validate_policy_number (Some (py ''HM-2025-10-A4B''))) = py ''PASS''
   \<and> status (validate_policy_number (Some (py ''   ''))) = py ''FAIL''
   \<and> status (validate_policy_number (Some [])) = py ''FAIL''
   \<and> status (validate_policy_number None) = py ''FAIL''"
proof -
  have n: "strip (py ''HM-2025-10-A4B'') \<noteq> []"
    by (simp add: py_def strip_def lstrip_def rstrip_def py_isspace_def)
  have b: "\<forall>c\<in>set (py ''   ''). py_isspace c"
    by (simp add: py_def py_isspace_def)
  have s: "strip (py ''   '') = []"
    using b by (simp only: strip_Nil_iff)
  show ?thesis
    using n s policy_number_status [OF n b] by simp
qed

text \<open>
  Claim C6, as stated: the FAIL outcome for a vessel name that is present but empty
  after trimming carries a message different from that for an absent name. It fails:
  for the name of three spaces the two messages are the same.
\<close>

theorem blank_vessel_message_counterexample:
  "\<not> (message (validate_vessel_name approved_fleet (Some (py ''   '')))
        \<noteq> message (validate_vessel_name approved_fleet None))"
  by (simp add: validate_vessel_name_def py_def strip_def lstrip_def rstrip_def py_isspace_def)

lemma missing_neq_listed:
  "py ''Vessel '' @ 39 # rest \<noteq> py ''Vessel name is missing.''"
  by (simp add: py_def)

text \<open>
  Claim C6, amended. A vessel name that is present but empty after trimming gets the
  same outcome as an absent name, with the message \<open>Vessel name is missing.\<close>; only
  the outcome for a name that is not blank carries a different message.
\<close>

theorem blank_vessel_same_outcome:
  "strip blank = [] \<Longrightarrow> strip n \<noteq> [] \<Longrightarrow>
     validate_vessel_name self (Some blank) = validate_vessel_name self None
     \<and> message (validate_vessel_name self (Some blank)) = py ''Vessel name is missing.''
     \<and> message (validate_vessel_name self (Some n)) \<noteq> py ''Vessel name is missing.''"
proof -
  assume sb: "strip blank = []" and n: "strip n \<noteq> []"
  have 1: "validate_vessel_name self (Some blank) = validate_vessel_name self None"
    by (simp add: validate_vessel_name_def sb)
  have 2: "message (validate_vessel_name self None) = py ''Vessel name is missing.''"
    by (simp add: validate_vessel_name_def)
  have 3: "message (validate_vessel_name self (Some n)) \<noteq> py ''Vessel name is missing.''"
    using n by (simp add: validate_vessel_name_def missing_neq_listed)
  from 1 2 3 show ?thesis by simp
qed

theorem blank_vessel_same_outcome_witness:
  "strip (py ''   '') = [] \<and> strip (py ''Unknown Ship'') \<noteq> []
   \<and> validate_vessel_name approved_fleet (Some (py ''   ''))
       = validate_vessel_name approved_fleet None
   \<and> message (validate_vessel_name approved_fleet (Some (py ''   ''))) = py ''Vessel name is missing.''
   \<and> message (validate_vessel_name approved_fleet (Some (py ''Unknown Ship'')))
       \<noteq> py ''Vessel name is missing.''"
proof -
  have b: "strip (py ''   '') = []"
    by (simp add: py_def strip_def lstrip_def rstrip_def py_isspace_def)
  have n: "strip (py ''Unknown Ship'') \<noteq> []"
    by (simp add: py_def strip_def lstrip_def rstrip_def py_isspace_def)
  show ?thesis
    by (rule conjI [OF b conjI [OF n blank_vessel_same_outcome [OF b n, of approved_fleet]]])
qed

section \<open>The vessel loader\<close>

text \<open>
  Claim C9. The loader is to return strings only and never to return normally with
  content that is not an array of strings. On the array of a number and \<open>null\<close> the code
  returns that array as it is, and the validator is built with it: only
  \<open>isinstance(vessels, list)\<close> is tested, the elements are not.
\<close>

theorem loader_returns_non_strings:
  "load_valid_vessels path (Decoded (JList [JInt 1, JNull])) = Inr [JInt 1, JNull]
   \<and> DocumentValidator_init path_str given (Decoded (JList [JInt 1, JNull]))
       = Inr \<lparr>valid_vessels_path = path_str given, valid_vessels = [JInt 1, JNull]\<rparr>"
  by (simp add: DocumentValidator_init_def)

section \<open>Startup and the request handler\<close>








text \<open>
  Claim C8. When the start or the end date string of the extraction does not parse, the
  handler still returns a response: that date is absent in the record, the other date is
  converted as usual, the policy number, the vessel name and the insured value are taken
  over unchanged, and the results are those of the four rules on this record.
\<close>

theorem unparsable_date_is_absent:
  "ai_extractor sv = Some x \<Longrightarrow> document_validator sv = Some v \<Longrightarrow>
   gemini (document_text request) = Inr (Some ai) \<Longrightarrow> fromiso t = None \<Longrightarrow>
   ai_policy_start_date ai = Some t \<or> ai_policy_end_date ai = Some t \<Longrightarrow>
     (let d = \<lparr>policy_number = ai_policy_number ai,
               vessel_name = ai_vessel_name ai,
               policy_start_date =
                 (if ai_policy_start_date ai = Some t then None
                  else parse_date fromiso (ai_policy_start_date ai)),
               policy_end_date =
                 (if ai_policy_end_date ai = Some t then None
                  else parse_date fromiso (ai_policy_end_date ai)),
               insured_value = ai_insured_value ai\<rparr>
      in snd (validate_document sv gemini fromiso request)
           = Inr \<lparr>extracted_data = d, validation_results = validate_all v d\<rparr>
         \<and> validate_all v d =
             [validate_date_consistency (policy_start_date d) (policy_end_date d),
              validate_insured_value (insured_value d),
              validate_vessel_name v (vessel_name d),
              validate_policy_number (policy_number d)])"
proof -
  assume sv: "ai_extractor sv = Some x" "document_validator sv = Some v"
    and g: "gemini (document_text request) = Inr (Some ai)"
    and t: "fromiso t = None"
  from t have p: "parse_date fromiso (Some t) = None"
    by (simp add: parse_date_def)
  have s: "(if ai_policy_start_date ai = Some t then None
            else parse_date fromiso (ai_policy_start_date ai))
           = parse_date fromiso (ai_policy_start_date ai)"
    using p by simp
  have e: "(if ai_policy_end_date ai = Some t then None
            else parse_date fromiso (ai_policy_end_date ai))
           = parse_date fromiso (ai_policy_end_date ai)"
    using p by simp
  show ?thesis
    unfolding s e
    by (simp add: validate_document_def extract_data_sync_def sv g Let_def validate_all_def)
qed

theorem unparsable_date_is_absent_witness:
  "ai_extractor ready = Some \<lparr>api_key = py ''key''\<rparr>
   \<and> document_validator ready = Some approved_fleet
   \<and> iso_ymd (py ''2025-13-01'') = None
   \<and> ai_policy_start_date bad_start = Some (py ''2025-13-01'')
   \<and> snd (validate_document ready (\<lambda>text. Inr (Some bad_start)) iso_ymd
             \<lparr>document_text = py ''Policy HM-2025-10-A4B''\<rparr>)
       = Inr \<lparr>extracted_data =
                 \<lparr>policy_number = Some (py ''HM-2025-10-A4B''),
                  vessel_name = Some (py ''MV Neptune''),
                  policy_start_date = None,
                  policy_end_date = Some \<lparr>year = 2025, month = 12, day = 31\<rparr>,
                  insured_value = Some 5000000\<rparr>,
               validation_results =
                 [validate_date_consistency None (Some \<lparr>year = 2025, month = 12, day = 31\<rparr>),
                  validate_insured_value (Some 5000000),
                  validate_vessel_name approved_fleet (Some (py ''MV Neptune'')),
                  validate_policy_number (Some (py ''HM-2025-10-A4B''))]\<rparr>"
proof -
  have a: "ai_extractor ready = Some \<lparr>api_key = py ''key''\<rparr>" by (simp add: ready_def)
  have b: "document_validator ready = Some approved_fleet" by (simp add: ready_def)
  have g: "(\<lambda>text. Inr (Some bad_start)) (document_text \<lparr>document_text = py ''Policy HM-2025-10-A4B''\<rparr>)
             = (Inr (Some bad_start) :: exn + AIExtractedData option)" by simp
  have t: "iso_ymd (py ''2025-13-01'') = None"
    by (simp add: iso_ymd_def py_def digit_val_def)
  have e: "iso_ymd (py ''2025-12-31'') = Some \<lparr>year = 2025, month = 12, day = 31\<rparr>"
    by (simp add: iso_ymd_def py_def digit_val_def days_in_month_def)
  have s: "ai_policy_start_date bad_start = Some (py ''2025-13-01'')
           \<or> ai_policy_end_date bad_start = Some (py ''2025-13-01'')"
    by (simp add: bad_start_def)
  have n: "py ''2025-12-31'' \<noteq> py ''2025-13-01''" "py ''2025-12-31'' \<noteq> []"
    by (simp_all add: py_eq_iff) (simp add: py_def)
  show ?thesis
    using a b t
      unparsable_date_is_absent [where gemini = "\<lambda>text. Inr (Some bad_start)"
        and request = "\<lparr>document_text = py ''Policy HM-2025-10-A4B''\<rparr>"
        and fromiso = iso_ymd and t = "py ''2025-13-01''" and ai = bad_start, OF a b g t s]
    by (simp add: Let_def bad_start_def parse_date_def e n)
qed




end
